theory Spec2Isabelle
  imports Main
begin

section \<open>JavaScript values\<close>

text \<open>
  The values the TypeScript sources pass around as \<open>any\<close>: plain data. Numbers are
  integers (identifiers, limits, offsets, status codes, seconds); functions, symbols and
  accessor properties do not occur. An object is the list of its properties in the order
  in which JavaScript enumerates them, which for property names that are not array
  indices is the order of insertion.
\<close>

datatype jsval =
    JUndefined
  | JNull
  | JBool bool
  | JNum int
  | JStr string
  | JArr "jsval list"
  | JObj "(string \<times> jsval) list"

text \<open>What the program can throw.\<close>

datatype thrown =
    Error string
  | TypeError string
  | ZodError string
  | PersonioApiError int string jsval
  | AxiosError string "(int \<times> jsval) option"

text \<open>ToBoolean: the test of \<open>if (x)\<close>, \<open>!x\<close> and \<open>x || y\<close>.\<close>

fun truthy :: "jsval \<Rightarrow> bool" where
  "truthy JUndefined = False"
| "truthy JNull = False"
| "truthy (JBool b) = b"
| "truthy (JNum n) = (n \<noteq> 0)"
| "truthy (JStr s) = (s \<noteq> [])"
| "truthy (JArr xs) = True"
| "truthy (JObj fs) = True"

definition js_or :: "jsval \<Rightarrow> jsval \<Rightarrow> jsval" where
  "js_or a b = (if truthy a then a else b)"

text \<open>
  Property access \<open>v.k\<close>: a TypeError on \<open>undefined\<close> and \<open>null\<close>, the property's
  value on an object that has it, \<open>undefined\<close> otherwise (the names the program reads,
  such as \<open>response\<close>, \<open>code\<close> and \<open>message\<close>, are not properties of strings,
  numbers, booleans or arrays).
\<close>

fun get_prop :: "jsval \<Rightarrow> string \<Rightarrow> thrown + jsval" where
  "get_prop JUndefined k = Inl (TypeError (''Cannot read properties of undefined (reading '' @ k @ '')''))"
| "get_prop JNull k = Inl (TypeError (''Cannot read properties of null (reading '' @ k @ '')''))"
| "get_prop (JObj fs) k = Inr (case map_of fs k of None \<Rightarrow> JUndefined | Some v \<Rightarrow> v)"
| "get_prop v k = Inr JUndefined"

text \<open>Optional chaining \<open>v?.k\<close>.\<close>

fun opt_prop :: "jsval \<Rightarrow> string \<Rightarrow> jsval" where
  "opt_prop (JObj fs) k = (case map_of fs k of None \<Rightarrow> JUndefined | Some v \<Rightarrow> v)"
| "opt_prop v k = JUndefined"

definition bind_thrown :: "thrown + 'a \<Rightarrow> ('a \<Rightarrow> thrown + 'b) \<Rightarrow> thrown + 'b" where
  "bind_thrown r f = (case r of Inl e \<Rightarrow> Inl e | Inr v \<Rightarrow> f v)"

text \<open>Decimal digits of a number, as \<open>String(n)\<close> prints an integer.\<close>

fun dec_nat :: "nat \<Rightarrow> string" where
  "dec_nat n = (if n < 10 then [''0123456789'' ! n]
                else dec_nat (n div 10) @ [''0123456789'' ! (n mod 10)])"

declare dec_nat.simps [simp del]

definition dec_int :: "int \<Rightarrow> string" where
  "dec_int i = (if i < 0 then CHR ''-'' # dec_nat (nat (- i)) else dec_nat (nat i))"

fun intercalate :: "string \<Rightarrow> string list \<Rightarrow> string" where
  "intercalate sep [] = []"
| "intercalate sep [x] = x"
| "intercalate sep (x # y # ys) = x @ sep @ intercalate sep (y # ys)"

text \<open>
  ToString, as a template literal \<open>`${v}`\<close> applies it: an array joins its elements
  with commas (\<open>undefined\<close> and \<open>null\<close> elements as the empty string), a plain object is
  \<open>[object Object]\<close>.
\<close>

fun to_str :: "jsval \<Rightarrow> string" where
  "to_str JUndefined = ''undefined''"
| "to_str JNull = ''null''"
| "to_str (JBool b) = (if b then ''true'' else ''false'')"
| "to_str (JNum n) = dec_int n"
| "to_str (JStr s) = s"
| "to_str (JArr xs) =
     intercalate '','' (map (\<lambda>x. if x = JUndefined \<or> x = JNull then [] else to_str x) xs)"
| "to_str (JObj fs) = ''[object Object]''"

section \<open>JSON.stringify\<close>

text \<open>
  The escapes of a JSON string literal: the quote, the backslash, the five short
  escapes, and \<open>\u00XX\<close> for the other control characters.
\<close>

definition hex_digit :: "nat \<Rightarrow> char" where
  "hex_digit n = ''0123456789abcdef'' ! (n mod 16)"

definition escape_char :: "char \<Rightarrow> string" where
  "escape_char c =
     (if c = CHR 0x22 then [CHR 0x5C, CHR 0x22]
      else if c = CHR 0x5C then [CHR 0x5C, CHR 0x5C]
      else if c = CHR 0x08 then [CHR 0x5C, CHR ''b'']
      else if c = CHR 0x0C then [CHR 0x5C, CHR ''f'']
      else if c = CHR 0x0A then [CHR 0x5C, CHR ''n'']
      else if c = CHR 0x0D then [CHR 0x5C, CHR ''r'']
      else if c = CHR 0x09 then [CHR 0x5C, CHR ''t'']
      else if of_char c < (32::nat)
        then [CHR 0x5C, CHR ''u'', CHR ''0'', CHR ''0'',
              hex_digit (of_char c div 16), hex_digit (of_char c)]
      else [c])"

definition quote :: "string \<Rightarrow> string" where
  "quote s = CHR 0x22 # concat (map escape_char s) @ [CHR 0x22]"

text \<open>
  \<open>JSON.stringify v\<close>: \<open>None\<close> is the result \<open>undefined\<close>. An array prints an
  \<open>undefined\<close> element as \<open>null\<close>; an object leaves out every property whose value is
  \<open>undefined\<close> and prints the others in enumeration order.
\<close>

fun stringify :: "jsval \<Rightarrow> string option"
  and stringify_elems :: "jsval list \<Rightarrow> string list"
  and stringify_props :: "(string \<times> jsval) list \<Rightarrow> string list" where
  "stringify JUndefined = None"
| "stringify JNull = Some ''null''"
| "stringify (JBool b) = Some (if b then ''true'' else ''false'')"
| "stringify (JNum n) = Some (dec_int n)"
| "stringify (JStr s) = Some (quote s)"
| "stringify (JArr xs) = Some (''['' @ intercalate '','' (stringify_elems xs) @ '']'')"
| "stringify (JObj fs) = Some (''{'' @ intercalate '','' (stringify_props fs) @ ''}'')"
| "stringify_elems [] = []"
| "stringify_elems (x # xs) =
     (case stringify x of None \<Rightarrow> ''null'' | Some s \<Rightarrow> s) # stringify_elems xs"
| "stringify_props [] = []"
| "stringify_props ((k, v) # fs) =
     (case stringify v of None \<Rightarrow> stringify_props fs
      | Some s \<Rightarrow> (quote k @ '':'' @ s) # stringify_props fs)"

text \<open>The text a template literal inserts for \<open>JSON.stringify(v)\<close>.\<close>

definition stringify_text :: "jsval \<Rightarrow> string" where
  "stringify_text v = (case stringify v of None \<Rightarrow> ''undefined'' | Some s \<Rightarrow> s)"

section \<open>CacheManager: the key generators\<close>

definition getEmployeesKey :: "jsval \<Rightarrow> string" where
  "getEmployeesKey params = ''employees:'' @ stringify_text (js_or params (JObj []))"

definition getEmployeeKey :: "int \<Rightarrow> string" where
  "getEmployeeKey ident = ''employee:'' @ dec_int ident"

definition getAbsencesKey :: "jsval \<Rightarrow> string" where
  "getAbsencesKey params = ''absences:'' @ stringify_text (js_or params (JObj []))"

definition getOrganizationKey :: string where
  "getOrganizationKey = ''organization:structure''"

definition getPoliciesKey :: string where
  "getPoliciesKey = ''policies:absence-types''"


section \<open>CacheManager: the store\<close>

record CacheConfig =
  employeesTTL :: int
  organizationTTL :: int
  policiesTTL :: int

text \<open>An optional number \<open>x\<close> in \<open>x || d\<close>: \<open>undefined\<close> and \<open>0\<close> give \<open>d\<close>.\<close>

definition num_or :: "int option \<Rightarrow> int \<Rightarrow> int" where
  "num_or x d = (case x of None \<Rightarrow> d | Some n \<Rightarrow> if n = 0 then d else n)"

text \<open>
  Modelled from the spec: the store behind CacheManager is an instance of NodeCache, of
  the package node-cache, whose code is not among the sources. The spec's CacheEntry is
  \<open>{key, value, expiresAt}\<close>; \<open>get\<close> returns the value or absent, and never an entry after
  its \<open>expiresAt\<close>; \<open>set\<close> commits an entry that lives for the given number of seconds;
  \<open>delete\<close> returns the number of entries it removed. Times are milliseconds. An
  entry counts as absent from its expiry on; the moment at which the store discards it
  is not modelled.
\<close>

record cache_entry =
  entry_value :: jsval
  expiresAt :: int

type_synonym node_cache = "string \<Rightarrow> cache_entry option"

definition NodeCache_set :: "node_cache \<Rightarrow> string \<Rightarrow> jsval \<Rightarrow> int \<Rightarrow> int \<Rightarrow> node_cache" where
  "NodeCache_set c key v ttl now = c(key \<mapsto> \<lparr>entry_value = v, expiresAt = now + ttl * 1000\<rparr>)"

definition NodeCache_get :: "node_cache \<Rightarrow> string \<Rightarrow> int \<Rightarrow> jsval option" where
  "NodeCache_get c key now =
     (case c key of None \<Rightarrow> None
      | Some e \<Rightarrow> if expiresAt e < now then None else Some (entry_value e))"

definition NodeCache_del :: "node_cache \<Rightarrow> string \<Rightarrow> nat \<times> node_cache" where
  "NodeCache_del c key = ((if c key = None then 0 else 1), c(key := None))"

record CacheManager =
  config :: CacheConfig
  cache :: node_cache

definition new_CacheManager :: "(int option \<times> int option \<times> int option) option \<Rightarrow> CacheManager" where
  "new_CacheManager cfg =
     \<lparr>config =
        \<lparr>employeesTTL = num_or (case cfg of None \<Rightarrow> None | Some (e, g, p) \<Rightarrow> e) 300,
         organizationTTL = num_or (case cfg of None \<Rightarrow> None | Some (e, g, p) \<Rightarrow> g) 3600,
         policiesTTL = num_or (case cfg of None \<Rightarrow> None | Some (e, g, p) \<Rightarrow> p) 86400\<rparr>,
      cache = Map.empty\<rparr>"

fun starts_with :: "string \<Rightarrow> string \<Rightarrow> bool" where
  "starts_with s [] = True"
| "starts_with [] (p # ps) = False"
| "starts_with (c # cs) (p # ps) = (c = p \<and> starts_with cs ps)"

text \<open>\<open>s.includes(sub)\<close>.\<close>

fun str_includes :: "string \<Rightarrow> string \<Rightarrow> bool" where
  "str_includes [] sub = (sub = [])"
| "str_includes (c # cs) sub = (starts_with (c # cs) sub \<or> str_includes cs sub)"

definition getDefaultTTL :: "CacheManager \<Rightarrow> string \<Rightarrow> int" where
  "getDefaultTTL cm key =
     (if str_includes key ''employees'' then employeesTTL (config cm)
      else if str_includes key ''organization'' then organizationTTL (config cm)
      else if str_includes key ''policies'' then policiesTTL (config cm)
      else 300)"

definition CacheManager_set ::
  "CacheManager \<Rightarrow> string \<Rightarrow> jsval \<Rightarrow> int option \<Rightarrow> int \<Rightarrow> bool \<times> CacheManager" where
  "CacheManager_set cm key v ttl now =
     (True, cm\<lparr>cache := NodeCache_set (cache cm) key v (num_or ttl (getDefaultTTL cm key)) now\<rparr>)"

definition CacheManager_get :: "CacheManager \<Rightarrow> string \<Rightarrow> int \<Rightarrow> jsval option" where
  "CacheManager_get cm key now = NodeCache_get (cache cm) key now"

definition CacheManager_has :: "CacheManager \<Rightarrow> string \<Rightarrow> int \<Rightarrow> bool" where
  "CacheManager_has cm key now = (NodeCache_get (cache cm) key now \<noteq> None)"

definition CacheManager_delete :: "CacheManager \<Rightarrow> string \<Rightarrow> nat \<times> CacheManager" where
  "CacheManager_delete cm key =
     (fst (NodeCache_del (cache cm) key), cm\<lparr>cache := snd (NodeCache_del (cache cm) key)\<rparr>)"

definition CacheManager_flush :: "CacheManager \<Rightarrow> CacheManager" where
  "CacheManager_flush cm = cm\<lparr>cache := Map.empty\<rparr>"

section \<open>PersonioAuth\<close>

text \<open>
  A request that \<open>axios.post\<close> sends: the URL, the body and the headers. Its outcome is
  the network's: the promise is fulfilled with the response data, or rejected with an
  error that has a message and, when the server answered, a response (status and body).
\<close>

datatype request = Post string "(string \<times> string) list" "(string \<times> string) list"

datatype 'a outcome = Fulfilled 'a | Rejected string "(int \<times> jsval) option"

text \<open>
  An \<open>async\<close> function runs without interruption up to its first \<open>await\<close> of a request:
  either it has returned (or thrown) by then, or it is suspended on the request.
\<close>

datatype 'a suspended = Return 'a | Await request

record PersonioAuthToken =
  success :: bool
  token :: "string option"
  expires_in :: int

record PersonioAuth =
  clientId :: "string option"
  clientSecret :: "string option"
  apiKey :: "string option"
  baseUrl :: string
  accessToken :: "string option"
  tokenExpiry :: "int option"

text \<open>ToBoolean of an optional string: \<open>undefined\<close> and the empty string are falsy.\<close>

definition truthy_str :: "string option \<Rightarrow> bool" where
  "truthy_str s = (case s of None \<Rightarrow> False | Some x \<Rightarrow> x \<noteq> [])"

definition new_PersonioAuth ::
  "string option \<Rightarrow> string option \<Rightarrow> string option \<Rightarrow> string option \<Rightarrow> PersonioAuth" where
  "new_PersonioAuth cid secret key url =
     \<lparr>clientId = cid, clientSecret = secret, apiKey = key,
      baseUrl = (if truthy_str url then the url else ''https://api.personio.de''),
      accessToken = None, tokenExpiry = None\<rparr>"

definition token_request :: "PersonioAuth \<Rightarrow> request" where
  "token_request a =
     Post (baseUrl a @ ''/v2/auth/token'')
       [(''grant_type'', ''client_credentials''),
        (''client_id'', the (clientId a)),
        (''client_secret'', the (clientSecret a))]
       [(''Content-Type'', ''application/json''), (''Accept'', ''application/json'')]"

text \<open>\<open>getAccessToken\<close> up to its \<open>await\<close>; \<open>now\<close> is \<open>new Date()\<close>.\<close>

definition getAccessToken_begin :: "int \<Rightarrow> PersonioAuth \<Rightarrow> (thrown + string) suspended" where
  "getAccessToken_begin now a =
     (if truthy_str (accessToken a) \<and> tokenExpiry a \<noteq> None \<and> the (tokenExpiry a) > now
      then Return (Inr (the (accessToken a)))
      else if \<not> truthy_str (clientId a) \<or> \<not> truthy_str (clientSecret a)
      then Return (Inl (Error ''Client ID and Client Secret are required for OAuth2 authentication''))
      else Await (token_request a))"

text \<open>\<open>getAccessToken\<close> from the outcome of its request on; \<open>now\<close> is \<open>Date.now()\<close> then.\<close>

definition getAccessToken_resume ::
  "PersonioAuthToken outcome \<Rightarrow> int \<Rightarrow> PersonioAuth \<Rightarrow> (thrown + string) \<times> PersonioAuth" where
  "getAccessToken_resume out now a =
     (case out of
        Fulfilled d \<Rightarrow>
          if \<not> success d \<or> \<not> truthy_str (token d)
          then (Inl (Error (''Authentication error: '' @ ''Failed to obtain access token'')), a)
          else (Inr (the (token d)),
                a\<lparr>accessToken := token d,
                  tokenExpiry := Some (now + (expires_in d - 300) * 1000)\<rparr>)
      | Rejected msg (Some (status, body)) \<Rightarrow>
          (Inl (Error (''Authentication failed: '' @
             to_str (js_or (opt_prop (opt_prop body ''error'') ''message'') (JStr msg)))), a)
      | Rejected msg None \<Rightarrow> (Inl (Error (''Authentication error: '' @ msg)), a))"

type_synonym headers = "(string \<times> string) list"

definition apiKey_headers :: "string \<Rightarrow> headers" where
  "apiKey_headers k =
     [(''X-Personio-App-ID'', k), (''Accept'', ''application/json''),
      (''Content-Type'', ''application/json'')]"

definition bearer_headers :: "string \<Rightarrow> headers" where
  "bearer_headers t =
     [(''Authorization'', ''Bearer '' @ t), (''Accept'', ''application/json''),
      (''Content-Type'', ''application/json'')]"

definition getAuthHeaders_begin :: "int \<Rightarrow> PersonioAuth \<Rightarrow> (thrown + headers) suspended" where
  "getAuthHeaders_begin now a =
     (if truthy_str (apiKey a) then Return (Inr (apiKey_headers (the (apiKey a))))
      else (case getAccessToken_begin now a of
              Return (Inl e) \<Rightarrow> Return (Inl e)
            | Return (Inr t) \<Rightarrow> Return (Inr (bearer_headers t))
            | Await req \<Rightarrow> Await req))"

definition getAuthHeaders_resume ::
  "PersonioAuthToken outcome \<Rightarrow> int \<Rightarrow> PersonioAuth \<Rightarrow> (thrown + headers) \<times> PersonioAuth" where
  "getAuthHeaders_resume out now a =
     (case getAccessToken_resume out now a of
        (Inl e, a') \<Rightarrow> (Inl e, a')
      | (Inr t, a') \<Rightarrow> (Inr (bearer_headers t), a'))"

text \<open>
  One call of \<open>getAuthHeaders\<close> with nothing else running in between: the result, the
  state afterwards and the requests sent. \<open>net\<close> is the network's answer to a request,
  \<open>now\<close> the time of the call and \<open>later\<close> the time at which the answer arrives.
\<close>

definition getAuthHeaders ::
  "(request \<Rightarrow> PersonioAuthToken outcome) \<Rightarrow> int \<Rightarrow> int \<Rightarrow> PersonioAuth
     \<Rightarrow> (thrown + headers) \<times> PersonioAuth \<times> request list" where
  "getAuthHeaders net now later a =
     (case getAuthHeaders_begin now a of
        Return r \<Rightarrow> (r, a, [])
      | Await req \<Rightarrow>
          (fst (getAuthHeaders_resume (net req) later a),
           snd (getAuthHeaders_resume (net req) later a), [req]))"

definition revoke_request :: "PersonioAuth \<Rightarrow> request" where
  "revoke_request a =
     Post (baseUrl a @ ''/v2/auth/revoke'')
       [(''token'', the (accessToken a))]
       [(''Authorization'', ''Bearer '' @ the (accessToken a)),
        (''Content-Type'', ''application/json'')]"

definition revokeToken_begin :: "PersonioAuth \<Rightarrow> unit suspended" where
  "revokeToken_begin a =
     (if \<not> truthy_str (accessToken a) then Return () else Await (revoke_request a))"

text \<open>The \<open>finally\<close> block runs on both outcomes; a rejection is thrown on after it.\<close>

definition revokeToken_resume ::
  "unit outcome \<Rightarrow> PersonioAuth \<Rightarrow> (thrown + unit) \<times> PersonioAuth" where
  "revokeToken_resume out a =
     ((case out of Fulfilled u \<Rightarrow> Inr () | Rejected msg resp \<Rightarrow> Inl (AxiosError msg resp)),
      a\<lparr>accessToken := None, tokenExpiry := None\<rparr>)"

definition revokeToken ::
  "(request \<Rightarrow> unit outcome) \<Rightarrow> PersonioAuth \<Rightarrow> (thrown + unit) \<times> PersonioAuth \<times> request list" where
  "revokeToken net a =
     (case revokeToken_begin a of
        Return u \<Rightarrow> (Inr (), a, [])
      | Await req \<Rightarrow>
          (fst (revokeToken_resume (net req) a), snd (revokeToken_resume (net req) a), [req]))"

section \<open>Interleaved callers of getAuthHeaders\<close>

text \<open>
  Execution is single-threaded and cooperative: a caller runs until it awaits its
  request, and then other callers run. The broker is the shared PersonioAuth object
  together with the requests that are awaiting their answer, every token request sent so
  far, and the results handed back to callers. \<open>Invoke c now\<close> is caller \<open>c\<close> calling
  \<open>getAuthHeaders\<close>; \<open>Settle c out now\<close> is the answer to the request of caller \<open>c\<close>
  arriving. Every call has a caller number of its own.
\<close>

record broker =
  auth :: PersonioAuth
  in_flight :: "(nat \<times> request) list"
  grant_requests :: "request list"
  delivered :: "(nat \<times> (thrown + headers)) list"

datatype event = Invoke nat int | Settle nat "PersonioAuthToken outcome" int

definition new_broker :: "PersonioAuth \<Rightarrow> broker" where
  "new_broker a = \<lparr>auth = a, in_flight = [], grant_requests = [], delivered = []\<rparr>"

fun step :: "broker \<Rightarrow> event \<Rightarrow> broker" where
  "step b (Invoke c now) =
     (case getAuthHeaders_begin now (auth b) of
        Return r \<Rightarrow> b\<lparr>delivered := delivered b @ [(c, r)]\<rparr>
      | Await req \<Rightarrow>
          b\<lparr>in_flight := in_flight b @ [(c, req)],
            grant_requests := grant_requests b @ [req]\<rparr>)"
| "step b (Settle c out now) =
     (if c \<in> fst ` set (in_flight b)
      then b\<lparr>auth := snd (getAuthHeaders_resume out now (auth b)),
             in_flight := filter (\<lambda>p. fst p \<noteq> c) (in_flight b),
             delivered := delivered b @ [(c, fst (getAuthHeaders_resume out now (auth b)))]\<rparr>
      else b)"

definition run :: "broker \<Rightarrow> event list \<Rightarrow> broker" where
  "run b es = foldl step b es"

text \<open>A stored token that \<open>getAccessToken\<close> reuses at time \<open>now\<close>.\<close>

definition valid_token :: "PersonioAuth \<Rightarrow> int \<Rightarrow> bool" where
  "valid_token a now =
     (truthy_str (accessToken a) \<and> tokenExpiry a \<noteq> None \<and> now < the (tokenExpiry a))"

text \<open>Configured with client credentials and no static key.\<close>

definition client_credentials :: "PersonioAuth \<Rightarrow> bool" where
  "client_credentials a =
     (\<not> truthy_str (apiKey a) \<and> truthy_str (clientId a) \<and> truthy_str (clientSecret a))"

section \<open>formatError\<close>

text \<open>
  The argument of \<open>formatError\<close>: an instance of PersonioMCPError (message, code,
  details), or any other value.
\<close>

datatype caught = PersonioMCPError string string jsval | Value jsval

record ErrorDescriptor =
  code :: jsval
  message :: jsval
  details :: "jsval option"

definition formatError :: "caught \<Rightarrow> thrown + ErrorDescriptor" where
  "formatError error =
     (case error of
        PersonioMCPError msg c d \<Rightarrow> Inr \<lparr>code = JStr c, message = JStr msg, details = Some d\<rparr>
      | Value e \<Rightarrow>
          bind_thrown (get_prop e ''response'') (\<lambda>response.
            if truthy response then
              bind_thrown (get_prop response ''status'') (\<lambda>status.
              bind_thrown (get_prop response ''data'') (\<lambda>body.
              bind_thrown (get_prop e ''message'') (\<lambda>msg.
                Inr \<lparr>code = JStr (''HTTP_'' @ to_str status),
                     message = js_or (opt_prop body ''message'') msg,
                     details = Some body\<rparr>)))
            else
              bind_thrown (get_prop e ''code'') (\<lambda>c.
                if truthy c then
                  bind_thrown (get_prop e ''message'') (\<lambda>msg.
                    Inr \<lparr>code = c, message = msg, details = None\<rparr>)
                else
                  bind_thrown (get_prop e ''message'') (\<lambda>msg.
                    Inr \<lparr>code = JStr ''UNKNOWN_ERROR'',
                         message = js_or msg (JStr ''An unknown error occurred''),
                         details = None\<rparr>))))"

section \<open>PersonioClient: the response interceptor\<close>

text \<open>
  An error of axios as \<open>handleError\<close> receives it: the message, the response (status
  and body) when the server answered, and whether a request was made.
\<close>

record axios_error =
  ax_message :: string
  ax_response :: "(int \<times> jsval) option"
  ax_request :: bool

text \<open>\<open>handleError\<close> always throws; this is what it throws.\<close>

definition handleError :: "axios_error \<Rightarrow> thrown" where
  "handleError error =
     (case ax_response error of
        Some (status, body) \<Rightarrow>
          PersonioApiError status
            (to_str (js_or (opt_prop (opt_prop body ''error'') ''message'') (JStr ''Unknown error'')))
            (opt_prop (opt_prop body ''error'') ''code'')
      | None \<Rightarrow>
          if ax_request error
          then PersonioApiError 0 ''Network error occurred'' (JStr ''NETWORK_ERROR'')
          else PersonioApiError 0 (ax_message error) (JStr ''REQUEST_ERROR''))"

text \<open>
  An instance of PersonioApiError as the value a \<open>catch\<close> clause binds: the properties
  its constructor sets. The class extends Error, not PersonioMCPError.
\<close>

definition PersonioApiError_value :: "int \<Rightarrow> string \<Rightarrow> jsval \<Rightarrow> jsval" where
  "PersonioApiError_value status m c =
     JObj [(''message'', JStr m), (''statusCode'', JNum status), (''errorCode'', c),
           (''name'', JStr ''PersonioApiError'')]"

section \<open>AbsenceTools\<close>

subsection \<open>The schemas\<close>

text \<open>
  A zod schema maps a value to its parsed value, or to nothing when the value is
  refused. \<open>optional\<close> lets \<open>undefined\<close> through, \<open>default\<close> replaces \<open>undefined\<close>.
\<close>

definition z_string :: "jsval \<Rightarrow> string option" where
  "z_string v = (case v of JStr s \<Rightarrow> Some s | _ \<Rightarrow> None)"

definition z_number :: "jsval \<Rightarrow> int option" where
  "z_number v = (case v of JNum n \<Rightarrow> Some n | _ \<Rightarrow> None)"

definition z_number_min_max :: "int \<Rightarrow> int \<Rightarrow> jsval \<Rightarrow> int option" where
  "z_number_min_max lo hi v =
     (case v of JNum n \<Rightarrow> if lo \<le> n \<and> n \<le> hi then Some n else None | _ \<Rightarrow> None)"

definition z_number_min :: "int \<Rightarrow> jsval \<Rightarrow> int option" where
  "z_number_min lo v = (case v of JNum n \<Rightarrow> if lo \<le> n then Some n else None | _ \<Rightarrow> None)"

definition z_boolean :: "jsval \<Rightarrow> bool option" where
  "z_boolean v = (case v of JBool b \<Rightarrow> Some b | _ \<Rightarrow> None)"

definition z_enum :: "string list \<Rightarrow> jsval \<Rightarrow> string option" where
  "z_enum vs v = (case v of JStr s \<Rightarrow> if s \<in> set vs then Some s else None | _ \<Rightarrow> None)"

definition z_array :: "(jsval \<Rightarrow> 'a option) \<Rightarrow> jsval \<Rightarrow> 'a list option" where
  "z_array p v = (case v of JArr xs \<Rightarrow> those (map p xs) | _ \<Rightarrow> None)"

definition z_optional :: "(jsval \<Rightarrow> 'a option) \<Rightarrow> jsval \<Rightarrow> 'a option option" where
  "z_optional p v = (if v = JUndefined then Some None else map_option Some (p v))"

definition z_default :: "(jsval \<Rightarrow> 'a option) \<Rightarrow> 'a \<Rightarrow> jsval \<Rightarrow> 'a option" where
  "z_default p d v = (if v = JUndefined then Some d else p v)"

text \<open>\<open>data[key]\<close> of an object's property list.\<close>

definition field :: "(string \<times> jsval) list \<Rightarrow> string \<Rightarrow> jsval" where
  "field fs k = (case map_of fs k of None \<Rightarrow> JUndefined | Some v \<Rightarrow> v)"

text \<open>The message of a ZodError: the names of the properties that were refused.\<close>

definition issues :: "(string \<times> bool) list \<Rightarrow> string" where
  "issues checks = intercalate '','' (map fst (filter (\<lambda>kv. \<not> snd kv) checks))"

record ListAbsencesParams =
  la_start_date :: "string option"
  la_end_date :: "string option"
  la_employee_ids :: "int list option"
  la_status :: "string option"
  la_limit :: int
  la_offset :: int

definition listAbsencesSchema_parse :: "jsval \<Rightarrow> thrown + ListAbsencesParams" where
  "listAbsencesSchema_parse args =
     (case args of
        JObj fs \<Rightarrow>
          (case (z_optional z_string (field fs ''start_date''),
                 z_optional z_string (field fs ''end_date''),
                 z_optional (z_array z_number) (field fs ''employee_ids''),
                 z_optional (z_enum [''approved'', ''pending'', ''rejected'', ''canceled''])
                   (field fs ''status''),
                 z_default (z_number_min_max 1 50) 50 (field fs ''limit''),
                 z_default (z_number_min 0) 0 (field fs ''offset'')) of
             (Some sd, Some ed, Some ids, Some st, Some lim, Some off) \<Rightarrow>
               Inr \<lparr>la_start_date = sd, la_end_date = ed, la_employee_ids = ids,
                    la_status = st, la_limit = lim, la_offset = off\<rparr>
           | (sd, ed, ids, st, lim, off) \<Rightarrow>
               Inl (ZodError (issues
                 [(''start_date'', sd \<noteq> None), (''end_date'', ed \<noteq> None),
                  (''employee_ids'', ids \<noteq> None), (''status'', st \<noteq> None),
                  (''limit'', lim \<noteq> None), (''offset'', off \<noteq> None)])))
      | _ \<Rightarrow> Inl (ZodError ''Expected object''))"

record CreateAbsenceParams =
  ca_employee_id :: int
  ca_time_off_type_id :: int
  ca_start_date :: string
  ca_end_date :: string
  ca_half_day_start :: bool
  ca_half_day_end :: bool
  ca_comment :: "string option"

definition createAbsenceSchema_parse :: "jsval \<Rightarrow> thrown + CreateAbsenceParams" where
  "createAbsenceSchema_parse args =
     (case args of
        JObj fs \<Rightarrow>
          (case (z_number (field fs ''employee_id''),
                 z_number (field fs ''time_off_type_id''),
                 z_string (field fs ''start_date''),
                 z_string (field fs ''end_date''),
                 z_default z_boolean False (field fs ''half_day_start''),
                 z_default z_boolean False (field fs ''half_day_end''),
                 z_optional z_string (field fs ''comment'')) of
             (Some e, Some t, Some sd, Some ed, Some hs, Some he, Some c) \<Rightarrow>
               Inr \<lparr>ca_employee_id = e, ca_time_off_type_id = t, ca_start_date = sd,
                    ca_end_date = ed, ca_half_day_start = hs, ca_half_day_end = he,
                    ca_comment = c\<rparr>
           | (e, t, sd, ed, hs, he, c) \<Rightarrow>
               Inl (ZodError (issues
                 [(''employee_id'', e \<noteq> None), (''time_off_type_id'', t \<noteq> None),
                  (''start_date'', sd \<noteq> None), (''end_date'', ed \<noteq> None),
                  (''half_day_start'', hs \<noteq> None), (''half_day_end'', he \<noteq> None),
                  (''comment'', c \<noteq> None)])))
      | _ \<Rightarrow> Inl (ZodError ''Expected object''))"

definition deleteAbsenceSchema_parse :: "jsval \<Rightarrow> thrown + int" where
  "deleteAbsenceSchema_parse args =
     (case args of
        JObj fs \<Rightarrow>
          (case z_number (field fs ''absence_id'') of
             Some n \<Rightarrow> Inr n
           | None \<Rightarrow> Inl (ZodError (issues [(''absence_id'', False)])))
      | _ \<Rightarrow> Inl (ZodError ''Expected object''))"

text \<open>An optional value as a property value: \<open>undefined\<close> when it is missing.\<close>

definition opt_val :: "('a \<Rightarrow> jsval) \<Rightarrow> 'a option \<Rightarrow> jsval" where
  "opt_val f x = (case x of None \<Rightarrow> JUndefined | Some v \<Rightarrow> f v)"

text \<open>
  The object that \<open>listAbsencesSchema.parse\<close> returns: the schema's properties, in the
  schema's order. (\<open>JSON.stringify\<close> treats a missing property and one whose value is
  \<open>undefined\<close> alike.)
\<close>

definition listAbsences_params :: "ListAbsencesParams \<Rightarrow> jsval" where
  "listAbsences_params p =
     JObj [(''start_date'', opt_val JStr (la_start_date p)),
           (''end_date'', opt_val JStr (la_end_date p)),
           (''employee_ids'', opt_val (\<lambda>ids. JArr (map JNum ids)) (la_employee_ids p)),
           (''status'', opt_val JStr (la_status p)),
           (''limit'', JNum (la_limit p)),
           (''offset'', JNum (la_offset p))]"

text \<open>The query that \<open>listAbsences\<close> passes to \<open>client.getAbsences\<close>.\<close>

definition listAbsences_query :: "ListAbsencesParams \<Rightarrow> jsval" where
  "listAbsences_query p =
     JObj [(''start_date'', opt_val JStr (la_start_date p)),
           (''end_date'', opt_val JStr (la_end_date p)),
           (''employees'', opt_val (\<lambda>ids. JArr (map JNum ids)) (la_employee_ids p)),
           (''status'', opt_val JStr (la_status p)),
           (''limit'', JNum (la_limit p)),
           (''offset'', JNum (la_offset p))]"

subsection \<open>The operations\<close>

record PersonioAbsence =
  ab_id :: int
  ab_status :: string
  ab_comment :: "string option"
  ab_start_date :: string
  ab_end_date :: string
  ab_days_count :: int
  ab_half_day_start :: bool
  ab_half_day_end :: bool
  ab_type_id :: int
  ab_type_name :: string
  ab_type_category :: string
  ab_employee_id :: int
  ab_employee_first_name :: string
  ab_employee_last_name :: string
  ab_employee_email :: string
  ab_created_at :: string
  ab_updated_at :: string

definition transformAbsence :: "PersonioAbsence \<Rightarrow> jsval" where
  "transformAbsence absence =
     JObj [(''id'', JNum (ab_id absence)),
           (''status'', JStr (ab_status absence)),
           (''employee'',
              JObj [(''id'', JNum (ab_employee_id absence)),
                    (''name'', JStr (ab_employee_first_name absence @ '' '' @
                                     ab_employee_last_name absence)),
                    (''email'', JStr (ab_employee_email absence))]),
           (''dates'',
              JObj [(''start'', JStr (ab_start_date absence)),
                    (''end'', JStr (ab_end_date absence)),
                    (''half_day_start'', JBool (ab_half_day_start absence)),
                    (''half_day_end'', JBool (ab_half_day_end absence))]),
           (''duration'',
              JObj [(''days'', JNum (ab_days_count absence)),
                    (''is_half_day'',
                       JBool (ab_half_day_start absence \<or> ab_half_day_end absence))]),
           (''type'',
              JObj [(''id'', JNum (ab_type_id absence)),
                    (''name'', JStr (ab_type_name absence)),
                    (''category'', JStr (ab_type_category absence))]),
           (''comment'', opt_val JStr (ab_comment absence)),
           (''created_at'', JStr (ab_created_at absence)),
           (''updated_at'', JStr (ab_updated_at absence))]"

text \<open>
  The operations take the upstream call as a function from its argument to its outcome
  (\<open>rateLimiter.execute\<close> hands on the outcome of the task it was given), the cache
  manager as state, and the clock: \<open>now\<close> when the operation starts and \<open>later\<close> when
  the upstream call has answered.
\<close>

definition listAbsences ::
  "(jsval \<Rightarrow> thrown + PersonioAbsence list) \<Rightarrow> int \<Rightarrow> int \<Rightarrow> CacheManager \<Rightarrow> jsval
     \<Rightarrow> (thrown + jsval) \<times> CacheManager" where
  "listAbsences client_getAbsences now later cm args =
     (case listAbsencesSchema_parse args of
        Inl e \<Rightarrow> (Inl e, cm)
      | Inr params \<Rightarrow>
          (let cacheKey = getAbsencesKey (listAbsences_params params);
               cached = CacheManager_get cm cacheKey now
           in if cached \<noteq> None \<and> truthy (the cached) then (Inr (the cached), cm)
              else
                (case client_getAbsences (listAbsences_query params) of
                   Inl e \<Rightarrow> (Inl e, cm)
                 | Inr absences \<Rightarrow>
                     (let result =
                        JObj [(''absences'', JArr (map transformAbsence absences)),
                              (''total'', JNum (int (length absences))),
                              (''limit'', JNum (la_limit params)),
                              (''offset'', JNum (la_offset params))]
                      in if \<not> truthy (opt_val JStr (la_status params))
                         then (Inr result,
                               snd (CacheManager_set cm cacheKey result (Some 60) later))
                         else (Inr result, cm)))))"

definition createAbsence ::
  "(CreateAbsenceParams \<Rightarrow> thrown + PersonioAbsence) \<Rightarrow> CacheManager \<Rightarrow> jsval
     \<Rightarrow> (thrown + jsval) \<times> CacheManager" where
  "createAbsence client_createAbsence cm args =
     (case createAbsenceSchema_parse args of
        Inl e \<Rightarrow> (Inl e, cm)
      | Inr params \<Rightarrow>
          (case client_createAbsence params of
             Inl e \<Rightarrow> (Inl e, cm)
           | Inr absence \<Rightarrow>
               (Inr (JObj [(''success'', JBool True),
                           (''absence'', transformAbsence absence),
                           (''message'', JStr ''Absence request created successfully'')]),
                snd (CacheManager_delete cm (getAbsencesKey JUndefined)))))"

definition deleteAbsence ::
  "(int \<Rightarrow> thrown + unit) \<Rightarrow> CacheManager \<Rightarrow> jsval \<Rightarrow> (thrown + jsval) \<times> CacheManager" where
  "deleteAbsence client_deleteAbsence cm args =
     (case deleteAbsenceSchema_parse args of
        Inl e \<Rightarrow> (Inl e, cm)
      | Inr absence_id \<Rightarrow>
          (case client_deleteAbsence absence_id of
             Inl e \<Rightarrow> (Inl e, cm)
           | Inr u \<Rightarrow>
               (Inr (JObj [(''success'', JBool True),
                           (''message'', JStr ''Absence deleted successfully'')]),
                snd (CacheManager_delete cm (getAbsencesKey JUndefined)))))"

subsection \<open>Sample data\<close>

definition sample_absence :: PersonioAbsence where
  "sample_absence =
     \<lparr>ab_id = 11, ab_status = ''approved'', ab_comment = None,
      ab_start_date = ''2024-05-02'', ab_end_date = ''2024-05-03'', ab_days_count = 2,
      ab_half_day_start = False, ab_half_day_end = False,
      ab_type_id = 1, ab_type_name = ''Vacation'', ab_type_category = ''paid'',
      ab_employee_id = 7, ab_employee_first_name = ''Ada'', ab_employee_last_name = ''Lovelace'',
      ab_employee_email = ''ada@example.com'',
      ab_created_at = ''2024-04-01'', ab_updated_at = ''2024-04-01''\<rparr>"

definition sample_create_args :: jsval where
  "sample_create_args =
     JObj [(''employee_id'', JNum 7), (''time_off_type_id'', JNum 1),
           (''start_date'', JStr ''2024-05-02''), (''end_date'', JStr ''2024-05-03'')]"

definition sample_create_params :: CreateAbsenceParams where
  "sample_create_params =
     \<lparr>ca_employee_id = 7, ca_time_off_type_id = 1, ca_start_date = ''2024-05-02'',
      ca_end_date = ''2024-05-03'', ca_half_day_start = False, ca_half_day_end = False,
      ca_comment = None\<rparr>"

definition sample_list_params :: "string option \<Rightarrow> ListAbsencesParams" where
  "sample_list_params st =
     \<lparr>la_start_date = None, la_end_date = None, la_employee_ids = None,
      la_status = st, la_limit = 50, la_offset = 0\<rparr>"

section \<open>Properties of the cache keys\<close>




lemmas key_eval =
  getAbsencesKey_def getEmployeesKey_def js_or_def stringify_text_def quote_def
  escape_char_def dec_int_def dec_nat.simps




section \<open>Properties of PersonioAuth\<close>

lemma begin_valid:
  "client_credentials a \<Longrightarrow> valid_token a now \<Longrightarrow>
   getAuthHeaders_begin now a = Return (Inr (bearer_headers (the (accessToken a))))"
  by (simp add: client_credentials_def valid_token_def getAuthHeaders_begin_def
      getAccessToken_begin_def)

lemma begin_invalid:
  "client_credentials a \<Longrightarrow> \<not> valid_token a now \<Longrightarrow>
   getAuthHeaders_begin now a = Await (token_request a)"
  by (auto simp add: client_credentials_def valid_token_def getAuthHeaders_begin_def
      getAccessToken_begin_def)

lemmas auth_eval =
  client_credentials_def valid_token_def new_PersonioAuth_def truthy_str_def
  getAuthHeaders_begin_def getAccessToken_begin_def

text \<open>
  C4: configured with client credentials, \<open>getAuthHeaders\<close> reuses the stored token
  when there is one and the time of the call is strictly before \<open>tokenExpiry\<close>: it
  returns the bearer header built from that token, sends no request and leaves the state
  as it is. Otherwise it sends exactly one request, the client-credentials grant (a POST
  to \<open>/v2/auth/token\<close> under the base URL, with \<open>grant_type = client_credentials\<close> and
  the client's id and secret); when the grant is answered with a token, that token is
  stored and returned in the bearer header, and \<open>tokenExpiry\<close> is the time of the answer
  plus \<open>expires_in - 300\<close> seconds (in milliseconds), which for \<open>expires_in = 3600\<close> is
  3300 seconds after it.
\<close>

theorem getAuthHeaders_reuse_or_grant:
  assumes cc: "client_credentials a"
  shows "(valid_token a now \<longrightarrow>
            getAuthHeaders net now later a
              = (Inr [(''Authorization'', ''Bearer '' @ the (accessToken a)),
                      (''Accept'', ''application/json''),
                      (''Content-Type'', ''application/json'')],
                 a, []))
       \<and> (\<not> valid_token a now \<longrightarrow>
            snd (snd (getAuthHeaders net now later a))
              = [Post (baseUrl a @ ''/v2/auth/token'')
                   [(''grant_type'', ''client_credentials''),
                    (''client_id'', the (clientId a)),
                    (''client_secret'', the (clientSecret a))]
                   [(''Content-Type'', ''application/json''),
                    (''Accept'', ''application/json'')]])
       \<and> (\<not> valid_token a now
            \<and> net (Post (baseUrl a @ ''/v2/auth/token'')
                   [(''grant_type'', ''client_credentials''),
                    (''client_id'', the (clientId a)),
                    (''client_secret'', the (clientSecret a))]
                   [(''Content-Type'', ''application/json''),
                    (''Accept'', ''application/json'')]) = Fulfilled d
            \<and> success d \<and> truthy_str (token d) \<longrightarrow>
            getAuthHeaders net now later a
              = (Inr [(''Authorization'', ''Bearer '' @ the (token d)),
                      (''Accept'', ''application/json''),
                      (''Content-Type'', ''application/json'')],
                 a\<lparr>accessToken := token d,
                   tokenExpiry := Some (later + (expires_in d - 300) * 1000)\<rparr>,
                 [Post (baseUrl a @ ''/v2/auth/token'')
                    [(''grant_type'', ''client_credentials''),
                     (''client_id'', the (clientId a)),
                     (''client_secret'', the (clientSecret a))]
                    [(''Content-Type'', ''application/json''),
                     (''Accept'', ''application/json'')]]))
       \<and> (\<not> valid_token a now
            \<and> net (Post (baseUrl a @ ''/v2/auth/token'')
                   [(''grant_type'', ''client_credentials''),
                    (''client_id'', the (clientId a)),
                    (''client_secret'', the (clientSecret a))]
                   [(''Content-Type'', ''application/json''),
                    (''Accept'', ''application/json'')]) = Fulfilled d
            \<and> success d \<and> truthy_str (token d) \<and> expires_in d = 3600 \<longrightarrow>
            tokenExpiry (fst (snd (getAuthHeaders net now later a)))
              = Some (later + 3300 * 1000))"
proof -
  have v: "valid_token a now \<Longrightarrow>
      getAuthHeaders net now later a = (Inr (bearer_headers (the (accessToken a))), a, [])"
    using cc by (simp add: getAuthHeaders_def begin_valid)
  have r: "\<not> valid_token a now \<Longrightarrow>
      snd (snd (getAuthHeaders net now later a)) = [token_request a]"
    using cc by (simp add: getAuthHeaders_def begin_invalid)
  have g: "\<not> valid_token a now \<Longrightarrow> net (token_request a) = Fulfilled d \<Longrightarrow> success d \<Longrightarrow>
      truthy_str (token d) \<Longrightarrow>
      getAuthHeaders net now later a
        = (Inr (bearer_headers (the (token d))),
           a\<lparr>accessToken := token d,
             tokenExpiry := Some (later + (expires_in d - 300) * 1000)\<rparr>,
           [token_request a])"
    using cc
    by (simp add: getAuthHeaders_def begin_invalid getAuthHeaders_resume_def
        getAccessToken_resume_def)
  from v r g show ?thesis
    by (auto simp add: token_request_def bearer_headers_def)
qed

theorem getAuthHeaders_reuse_or_grant_witness:
  "client_credentials (new_PersonioAuth (Some ''id'') (Some ''secret'') None None)
   \<and> getAuthHeaders (\<lambda>r. Fulfilled \<lparr>success = True, token = Some ''t1'', expires_in = 3600\<rparr>)
        1000 2000 (new_PersonioAuth (Some ''id'') (Some ''secret'') None None)
      = (Inr [(''Authorization'', ''Bearer t1''), (''Accept'', ''application/json''),
              (''Content-Type'', ''application/json'')],
         (new_PersonioAuth (Some ''id'') (Some ''secret'') None None)
           \<lparr>accessToken := Some ''t1'', tokenExpiry := Some 3302000\<rparr>,
         [Post ''https://api.personio.de/v2/auth/token''
            [(''grant_type'', ''client_credentials''), (''client_id'', ''id''),
             (''client_secret'', ''secret'')]
            [(''Content-Type'', ''application/json''), (''Accept'', ''application/json'')]])
   \<and> getAuthHeaders (\<lambda>r. Rejected ''timeout'' None) 3301999 3303000
        ((new_PersonioAuth (Some ''id'') (Some ''secret'') None None)
           \<lparr>accessToken := Some ''t1'', tokenExpiry := Some 3302000\<rparr>)
      = (Inr [(''Authorization'', ''Bearer t1''), (''Accept'', ''application/json''),
              (''Content-Type'', ''application/json'')],
         (new_PersonioAuth (Some ''id'') (Some ''secret'') None None)
           \<lparr>accessToken := Some ''t1'', tokenExpiry := Some 3302000\<rparr>, [])"
proof -
  let ?a = "new_PersonioAuth (Some ''id'') (Some ''secret'') None None"
  let ?b = "?a\<lparr>accessToken := Some ''t1'', tokenExpiry := Some 3302000\<rparr>"
  let ?d = "\<lparr>success = True, token = Some ''t1'', expires_in = 3600\<rparr>"
  have ca: "client_credentials ?a" by (simp add: auth_eval)
  have cb: "client_credentials ?b" by (simp add: auth_eval)
  have na: "\<not> valid_token ?a 1000" by (simp add: auth_eval)
  have vb: "valid_token ?b 3301999" by (simp add: auth_eval)
  have fa: "baseUrl ?a = ''https://api.personio.de''" "clientId ?a = Some ''id''"
    "clientSecret ?a = Some ''secret''"
    by (simp_all add: new_PersonioAuth_def truthy_str_def)
  from getAuthHeaders_reuse_or_grant [OF ca, of 1000 "\<lambda>r. Fulfilled ?d" 2000 ?d]
       getAuthHeaders_reuse_or_grant [OF cb, of 3301999 "\<lambda>r. Rejected ''timeout'' None" 3303000 ?d]
       ca na vb fa
  show ?thesis by (simp add: truthy_str_def)
qed

text \<open>
  C8: whatever the outcome of the revocation request (fulfilled, rejected by the server,
  or rejected without a response), and whatever ran while it was awaited, the part of
  \<open>revokeToken\<close> after the request leaves \<open>accessToken\<close> and \<open>tokenExpiry\<close> cleared.
  So a call that finds a token sends the revocation request and ends with both cleared,
  and every call ends with no token stored.
\<close>

theorem revokeToken_clears:
  "accessToken (snd (revokeToken_resume out a')) = None
   \<and> tokenExpiry (snd (revokeToken_resume out a')) = None
   \<and> (truthy_str (accessToken a) \<longrightarrow>
        snd (snd (revokeToken net a)) = [revoke_request a]
        \<and> accessToken (fst (snd (revokeToken net a))) = None
        \<and> tokenExpiry (fst (snd (revokeToken net a))) = None)
   \<and> \<not> truthy_str (accessToken (fst (snd (revokeToken net a))))"
  by (auto simp add: revokeToken_def revokeToken_begin_def revokeToken_resume_def
      truthy_str_def)

theorem revokeToken_clears_witness:
  "truthy_str (accessToken ((new_PersonioAuth (Some ''id'') (Some ''secret'') None None)
       \<lparr>accessToken := Some ''t1'', tokenExpiry := Some 3302000\<rparr>))
   \<and> revokeToken (\<lambda>r. Rejected ''Request failed with status code 500'' (Some (500, JNull)))
        ((new_PersonioAuth (Some ''id'') (Some ''secret'') None None)
           \<lparr>accessToken := Some ''t1'', tokenExpiry := Some 3302000\<rparr>)
      = (Inl (AxiosError ''Request failed with status code 500'' (Some (500, JNull))),
         new_PersonioAuth (Some ''id'') (Some ''secret'') None None,
         [Post ''https://api.personio.de/v2/auth/revoke'' [(''token'', ''t1'')]
            [(''Authorization'', ''Bearer t1''), (''Content-Type'', ''application/json'')]])
   \<and> accessToken (fst (snd (revokeToken (\<lambda>r. Rejected ''socket hang up'' None)
        ((new_PersonioAuth (Some ''id'') (Some ''secret'') None None)
           \<lparr>accessToken := Some ''t1'', tokenExpiry := Some 3302000\<rparr>)))) = None
   \<and> tokenExpiry (fst (snd (revokeToken (\<lambda>r. Fulfilled ())
        ((new_PersonioAuth (Some ''id'') (Some ''secret'') None None)
           \<lparr>accessToken := Some ''t1'', tokenExpiry := Some 3302000\<rparr>)))) = None"
proof -
  let ?b = "(new_PersonioAuth (Some ''id'') (Some ''secret'') None None)
              \<lparr>accessToken := Some ''t1'', tokenExpiry := Some 3302000\<rparr>"
  have t: "truthy_str (accessToken ?b)" by (simp add: truthy_str_def)
  have r: "revokeToken (\<lambda>r. Rejected ''Request failed with status code 500'' (Some (500, JNull))) ?b
      = (Inl (AxiosError ''Request failed with status code 500'' (Some (500, JNull))),
         new_PersonioAuth (Some ''id'') (Some ''secret'') None None,
         [Post ''https://api.personio.de/v2/auth/revoke'' [(''token'', ''t1'')]
            [(''Authorization'', ''Bearer t1''), (''Content-Type'', ''application/json'')]])"
    by (simp add: revokeToken_def revokeToken_begin_def revokeToken_resume_def truthy_str_def
        revoke_request_def new_PersonioAuth_def)
  from revokeToken_clears [of "Fulfilled ()" ?b ?b "\<lambda>r. Rejected ''socket hang up'' None"]
       revokeToken_clears [of "Fulfilled ()" ?b ?b "\<lambda>r. Fulfilled ()"] t r
  show ?thesis by simp
qed

text \<open>
  C10: when no access token is stored, \<open>revokeToken\<close> returns before its first
  request: it sends nothing and the credential state is what it was.
\<close>

theorem revokeToken_no_token:
  assumes "\<not> truthy_str (accessToken a)"
  shows "revokeToken_begin a = Return () \<and> revokeToken net a = (Inr (), a, [])"
  using assms by (simp add: revokeToken_def revokeToken_begin_def)

theorem revokeToken_no_token_witness:
  "\<not> truthy_str (accessToken (new_PersonioAuth (Some ''id'') (Some ''secret'') None None))
   \<and> revokeToken (\<lambda>r. Fulfilled ()) (new_PersonioAuth (Some ''id'') (Some ''secret'') None None)
      = (Inr (), new_PersonioAuth (Some ''id'') (Some ''secret'') None None, [])"
proof -
  have h: "\<not> truthy_str (accessToken (new_PersonioAuth (Some ''id'') (Some ''secret'') None None))"
    by (simp add: auth_eval)
  from revokeToken_no_token [OF h, of "\<lambda>r. Fulfilled ()"] h show ?thesis by simp
qed

section \<open>Properties of interleaved callers\<close>

lemma run_invokes:
  assumes cc: "client_credentials a"
    and inv: "\<forall>ct \<in> set cs. \<not> valid_token a (snd ct)"
    and b: "auth b = a"
  shows "foldl step b (map (\<lambda>ct. Invoke (fst ct) (snd ct)) cs)
       = b\<lparr>in_flight := in_flight b @ map (\<lambda>ct. (fst ct, token_request a)) cs,
           grant_requests := grant_requests b @ map (\<lambda>ct. token_request a) cs\<rparr>"
  using inv b
proof (induction cs arbitrary: b)
  case Nil
  show ?case by simp
next
  case (Cons ct cs)
  have st: "step b (Invoke (fst ct) (snd ct))
      = b\<lparr>in_flight := in_flight b @ [(fst ct, token_request a)],
          grant_requests := grant_requests b @ [token_request a]\<rparr>"
    using Cons.prems cc by (simp add: begin_invalid)
  define b' where "b' = step b (Invoke (fst ct) (snd ct))"
  have b': "b' = b\<lparr>in_flight := in_flight b @ [(fst ct, token_request a)],
          grant_requests := grant_requests b @ [token_request a]\<rparr>"
    using st by (simp only: b'_def)
  have ih: "foldl step b' (map (\<lambda>ct. Invoke (fst ct) (snd ct)) cs)
      = b'\<lparr>in_flight := in_flight b' @ map (\<lambda>ct. (fst ct, token_request a)) cs,
           grant_requests := grant_requests b' @ map (\<lambda>ct. token_request a) cs\<rparr>"
    by (rule Cons.IH) (use Cons.prems b' in auto)
  have "foldl step b (map (\<lambda>ct. Invoke (fst ct) (snd ct)) (ct # cs))
      = foldl step b' (map (\<lambda>ct. Invoke (fst ct) (snd ct)) cs)"
    by (simp only: b'_def list.map foldl_Cons)
  also have "\<dots> = b\<lparr>in_flight := in_flight b @ map (\<lambda>ct. (fst ct, token_request a)) (ct # cs),
           grant_requests := grant_requests b @ map (\<lambda>ct. token_request a) (ct # cs)\<rparr>"
    unfolding ih by (simp add: b')
  finally show ?case .
qed

text \<open>
  C1, as stated, fails: \<open>getAccessToken\<close> has no guard around its request. With client
  credentials and no token stored, two callers that invoke \<open>getAuthHeaders\<close> before any
  answer arrives leave two token requests in flight, and ten callers send ten grant
  requests.
\<close>

theorem single_flight_counterexample:
  "client_credentials (new_PersonioAuth (Some ''id'') (Some ''secret'') None None)
   \<and> \<not> valid_token (new_PersonioAuth (Some ''id'') (Some ''secret'') None None) 0
   \<and> length (in_flight
        (run (new_broker (new_PersonioAuth (Some ''id'') (Some ''secret'') None None))
           [Invoke 0 0, Invoke 1 0])) = 2
   \<and> length (grant_requests
        (run (new_broker (new_PersonioAuth (Some ''id'') (Some ''secret'') None None))
           [Invoke 0 0, Invoke 1 0, Invoke 2 0, Invoke 3 0, Invoke 4 0, Invoke 5 0,
            Invoke 6 0, Invoke 7 0, Invoke 8 0, Invoke 9 0])) = 10"
  by (simp add: auth_eval run_def new_broker_def)

text \<open>
  C1, amended: configured with client credentials, every caller that invokes
  \<open>getAuthHeaders\<close> while no valid token is stored sends a token request of its own.
  When the callers \<open>cs\<close> (each with the time of its call) invoke it before any answer
  arrives, there is one request in flight and one grant request sent per caller, the
  stored credential state is unchanged, and no caller has its result yet.
\<close>

theorem concurrent_callers_each_request:
  assumes "client_credentials a" and "\<forall>ct \<in> set cs. \<not> valid_token a (snd ct)"
  shows "run (new_broker a) (map (\<lambda>ct. Invoke (fst ct) (snd ct)) cs)
       = \<lparr>auth = a, in_flight = map (\<lambda>ct. (fst ct, token_request a)) cs,
          grant_requests = map (\<lambda>ct. token_request a) cs, delivered = []\<rparr>"
  using run_invokes [OF assms, of "new_broker a"]
  by (simp add: run_def new_broker_def)

theorem concurrent_callers_each_request_witness:
  "client_credentials (new_PersonioAuth (Some ''id'') (Some ''secret'') None None)
   \<and> length (in_flight
        (run (new_broker (new_PersonioAuth (Some ''id'') (Some ''secret'') None None))
           (map (\<lambda>ct. Invoke (fst ct) (snd ct))
              [(0, 0), (1, 0), (2, 0), (3, 1), (4, 1), (5, 1), (6, 2), (7, 2), (8, 2), (9, 3)])))
       = 10
   \<and> length (grant_requests
        (run (new_broker (new_PersonioAuth (Some ''id'') (Some ''secret'') None None))
           (map (\<lambda>ct. Invoke (fst ct) (snd ct))
              [(0, 0), (1, 0), (2, 0), (3, 1), (4, 1), (5, 1), (6, 2), (7, 2), (8, 2), (9, 3)])))
       = 10
   \<and> delivered
        (run (new_broker (new_PersonioAuth (Some ''id'') (Some ''secret'') None None))
           (map (\<lambda>ct. Invoke (fst ct) (snd ct))
              [(0, 0), (1, 0), (2, 0), (3, 1), (4, 1), (5, 1), (6, 2), (7, 2), (8, 2), (9, 3)]))
       = []"
proof -
  let ?a = "new_PersonioAuth (Some ''id'') (Some ''secret'') None None"
  let ?cs = "[(0, 0), (1, 0), (2, 0), (3, 1), (4, 1), (5, 1), (6, 2), (7, 2), (8, 2), (9, 3)]
               :: (nat \<times> int) list"
  have ca: "client_credentials ?a" by (simp add: auth_eval)
  have nv: "\<forall>ct \<in> set ?cs. \<not> valid_token ?a (snd ct)" by (simp add: auth_eval)
  from concurrent_callers_each_request [OF ca nv] ca show ?thesis by simp
qed

section \<open>Properties of formatError\<close>

text \<open>
  C6: what the code returns for an HTTP 429 failure whose response body is
  \<open>{error: {message: "rate limited"}}\<close>. Given the error of axios, \<open>formatError\<close>
  looks for the message at \<open>response.data.message\<close>, finds none, and returns the
  message of the error itself with the code \<open>HTTP_429\<close>. Given what the client's
  interceptor \<open>handleError\<close> throws for that failure, a PersonioApiError, it returns the
  message \<open>rate limited\<close> with the code \<open>UNKNOWN_ERROR\<close>.
\<close>

theorem formatError_http_429:
  "formatError (Value (JObj
     [(''message'', JStr ''Request failed with status code 429''),
      (''response'', JObj [(''status'', JNum 429),
         (''data'', JObj [(''error'', JObj [(''message'', JStr ''rate limited'')])])])]))
     = Inr \<lparr>code = JStr ''HTTP_429'', message = JStr ''Request failed with status code 429'',
            details = Some (JObj [(''error'', JObj [(''message'', JStr ''rate limited'')])])\<rparr>
   \<and> handleError \<lparr>ax_message = ''Request failed with status code 429'',
        ax_response = Some (429, JObj [(''error'', JObj [(''message'', JStr ''rate limited'')])]),
        ax_request = True\<rparr>
     = PersonioApiError 429 ''rate limited'' JUndefined
   \<and> formatError (Value (PersonioApiError_value 429 ''rate limited'' JUndefined))
     = Inr \<lparr>code = JStr ''UNKNOWN_ERROR'', message = JStr ''rate limited'', details = None\<rparr>"
  by (simp add: formatError_def handleError_def PersonioApiError_value_def bind_thrown_def
      js_or_def dec_int_def dec_nat.simps)

text \<open>
  C7: what the code does on \<open>null\<close> and \<open>undefined\<close>, and on an object that has a code
  and no message. Reading \<open>error.response\<close> of \<open>null\<close> or \<open>undefined\<close> raises a
  TypeError; the object gets a descriptor whose message is \<open>undefined\<close>.
\<close>

theorem formatError_null_raises:
  "formatError (Value JNull)
     = Inl (TypeError ''Cannot read properties of null (reading response)'')
   \<and> formatError (Value JUndefined)
     = Inl (TypeError ''Cannot read properties of undefined (reading response)'')
   \<and> formatError (Value (JObj [(''code'', JStr ''ECONNRESET'')]))
     = Inr \<lparr>code = JStr ''ECONNRESET'', message = JUndefined, details = None\<rparr>"
  by (simp add: formatError_def bind_thrown_def)

section \<open>Properties of AbsenceTools\<close>

lemma getAbsencesKey_undefined: "getAbsencesKey JUndefined = ''absences:{}''"
  by (simp add: getAbsencesKey_def js_or_def stringify_text_def)

lemmas cache_eval =
  CacheManager_get_def CacheManager_set_def CacheManager_delete_def
  NodeCache_get_def NodeCache_set_def NodeCache_del_def

text \<open>
  C5: when the arguments of \<open>create_absence_request\<close> are valid and the upstream call
  succeeds, the cache afterwards has no entry for the key \<open>absences:{}\<close>: a \<open>get\<close> of
  that key at any time returns absent, also when the operation started from a cache in
  which a \<open>set\<close> of that key had just succeeded. Every other key reads as before.
\<close>

theorem createAbsence_invalidates:
  assumes p: "createAbsenceSchema_parse args = Inr params"
    and ok: "client_createAbsence params = Inr absence"
  shows "CacheManager_get (snd (createAbsence client_createAbsence cm args)) ''absences:{}'' t
           = None
       \<and> CacheManager_get
           (snd (createAbsence client_createAbsence
                   (snd (CacheManager_set cm ''absences:{}'' v ttl now)) args))
           ''absences:{}'' t = None
       \<and> (\<forall>k. k \<noteq> ''absences:{}'' \<longrightarrow>
             CacheManager_get (snd (createAbsence client_createAbsence cm args)) k t
               = CacheManager_get cm k t)"
  using p ok
  by (simp add: createAbsence_def getAbsencesKey_undefined cache_eval)

lemmas zod_eval =
  field_def z_string_def z_number_def z_boolean_def z_default_def z_optional_def
  z_enum_def z_array_def z_number_min_max_def z_number_min_def

lemma sample_create_parse:
  "createAbsenceSchema_parse sample_create_args = Inr sample_create_params"
  by (simp add: createAbsenceSchema_parse_def sample_create_args_def sample_create_params_def
      zod_eval)

theorem createAbsence_invalidates_witness:
  "createAbsenceSchema_parse sample_create_args = Inr sample_create_params
   \<and> CacheManager_get
        (snd (CacheManager_set (new_CacheManager None) ''absences:{}'' (JStr ''v'') None 0))
        ''absences:{}'' 1000 = Some (JStr ''v'')
   \<and> CacheManager_get
        (snd (createAbsence (\<lambda>p. Inr sample_absence)
           (snd (CacheManager_set (new_CacheManager None) ''absences:{}'' (JStr ''v'') None 0))
           sample_create_args))
        ''absences:{}'' 1000 = None"
proof -
  have g: "CacheManager_get
        (snd (CacheManager_set (new_CacheManager None) ''absences:{}'' (JStr ''v'') None 0))
        ''absences:{}'' 1000 = Some (JStr ''v'')"
    by (simp add: cache_eval new_CacheManager_def num_or_def getDefaultTTL_def)
  have ok: "(\<lambda>p. Inr sample_absence) sample_create_params
      = (Inr sample_absence :: thrown + PersonioAbsence)"
    by simp
  from createAbsence_invalidates
         [OF sample_create_parse ok, of "new_CacheManager None" 1000 "JStr ''v''" None 0]
       sample_create_parse g
  show ?thesis by simp
qed

text \<open>
  The key under which \<open>list_absences\<close> caches a call without filters carries the
  schema's defaults for \<open>limit\<close> and \<open>offset\<close>; it is not the key \<open>absences:{}\<close>.
\<close>

lemma list_absences_default_key:
  "getAbsencesKey (listAbsences_params (sample_list_params None)) \<noteq> ''absences:{}''"
  by (simp add: listAbsences_params_def sample_list_params_def opt_val_def key_eval)

lemma parsed_status_truthy:
  assumes "listAbsencesSchema_parse args = Inr params" and "la_status params \<noteq> None"
  shows "truthy (opt_val JStr (la_status params))"
  using assms
  by (auto simp add: listAbsencesSchema_parse_def z_optional_def z_enum_def opt_val_def
      split: jsval.splits option.splits if_splits)

text \<open>
  C9: for a \<open>list_absences\<close> call whose validated parameters have a status filter, the
  cache manager after the call is the one before it: nothing is written. The cache
  changes only when there is no status filter; then, on a miss followed by a successful
  upstream call, the result is written under the call's key for 60 seconds.
\<close>

theorem listAbsences_status_no_write:
  assumes p: "listAbsencesSchema_parse args = Inr params"
  shows "(la_status params \<noteq> None \<longrightarrow>
            snd (listAbsences client_getAbsences now later cm args) = cm)
       \<and> (snd (listAbsences client_getAbsences now later cm args) \<noteq> cm \<longrightarrow>
            la_status params = None)
       \<and> (la_status params = None
            \<and> CacheManager_get cm (getAbsencesKey (listAbsences_params params)) now = None
            \<and> client_getAbsences (listAbsences_query params) = Inr absences \<longrightarrow>
            snd (listAbsences client_getAbsences now later cm args)
              = snd (CacheManager_set cm (getAbsencesKey (listAbsences_params params))
                      (JObj [(''absences'', JArr (map transformAbsence absences)),
                             (''total'', JNum (int (length absences))),
                             (''limit'', JNum (la_limit params)),
                             (''offset'', JNum (la_offset params))])
                      (Some 60) later))"
proof -
  have a: "la_status params \<noteq> None \<Longrightarrow>
            snd (listAbsences client_getAbsences now later cm args) = cm"
    using p parsed_status_truthy [OF p]
    by (simp add: listAbsences_def Let_def split: sum.splits)
  have b: "la_status params = None \<Longrightarrow>
     CacheManager_get cm (getAbsencesKey (listAbsences_params params)) now = None \<Longrightarrow>
     client_getAbsences (listAbsences_query params) = Inr absences \<Longrightarrow>
            snd (listAbsences client_getAbsences now later cm args)
              = snd (CacheManager_set cm (getAbsencesKey (listAbsences_params params))
                      (JObj [(''absences'', JArr (map transformAbsence absences)),
                             (''total'', JNum (int (length absences))),
                             (''limit'', JNum (la_limit params)),
                             (''offset'', JNum (la_offset params))])
                      (Some 60) later)"
    using p by (simp add: listAbsences_def Let_def opt_val_def)
  from a b show ?thesis by blast
qed

lemma sample_list_parse_status:
  "listAbsencesSchema_parse (JObj [(''status'', JStr ''approved'')])
     = Inr (sample_list_params (Some ''approved''))"
  by (simp add: listAbsencesSchema_parse_def sample_list_params_def zod_eval)

lemma sample_list_parse_plain:
  "listAbsencesSchema_parse (JObj []) = Inr (sample_list_params None)"
  by (simp add: listAbsencesSchema_parse_def sample_list_params_def zod_eval)

theorem listAbsences_status_no_write_witness:
  "listAbsencesSchema_parse (JObj [(''status'', JStr ''approved'')])
     = Inr (sample_list_params (Some ''approved''))
   \<and> snd (listAbsences (\<lambda>q. Inr [sample_absence]) 0 10 (new_CacheManager None)
            (JObj [(''status'', JStr ''approved'')]))
     = new_CacheManager None
   \<and> listAbsencesSchema_parse (JObj []) = Inr (sample_list_params None)
   \<and> snd (listAbsences (\<lambda>q. Inr [sample_absence]) 0 10 (new_CacheManager None) (JObj []))
     = snd (CacheManager_set (new_CacheManager None)
              (getAbsencesKey (listAbsences_params (sample_list_params None)))
              (JObj [(''absences'', JArr [transformAbsence sample_absence]),
                     (''total'', JNum 1), (''limit'', JNum 50), (''offset'', JNum 0)])
              (Some 60) 10)"
proof -
  have s: "la_status (sample_list_params (Some ''approved'')) \<noteq> None"
    by (simp add: sample_list_params_def)
  have n: "la_status (sample_list_params None) = None"
    "la_limit (sample_list_params None) = 50" "la_offset (sample_list_params None) = 0"
    by (simp_all add: sample_list_params_def)
  have m: "CacheManager_get (new_CacheManager None)
             (getAbsencesKey (listAbsences_params (sample_list_params None))) 0 = None"
    by (simp add: CacheManager_get_def NodeCache_get_def new_CacheManager_def)
  have f: "(\<lambda>q. Inr [sample_absence]) (listAbsences_query (sample_list_params None))
      = (Inr [sample_absence] :: thrown + PersonioAbsence list)"
    by simp
  from listAbsences_status_no_write
         [OF sample_list_parse_status, of "\<lambda>q. Inr [sample_absence]" 0 10 "new_CacheManager None"]
       listAbsences_status_no_write
         [OF sample_list_parse_plain, of "\<lambda>q. Inr [sample_absence]" 0 10 "new_CacheManager None"
            "[sample_absence]"]
       sample_list_parse_status sample_list_parse_plain s n m f
  show ?thesis by simp
qed

end
